theory Spec2Isabelle
  imports Main "HOL-Library.Word"
begin

section \<open>Go values used by the image stores\<close>

text \<open>
  The package \<^verbatim>\<open>images\<close> (file \<^verbatim>\<open>src/images/store.go\<close>) offers two stores of images:
  \<^verbatim>\<open>InMemoryStore\<close>, a Go map, and \<^verbatim>\<open>S3Store\<close>, a client of an S3 endpoint.
  Each Go function becomes a HOL function that takes the state it reads and returns
  the state it leaves.

  A Go \<^verbatim>\<open>error\<close> is a value carrying a message; the nil error is \<open>None\<close> of
  \<open>error option\<close>.  A call either returns, panics, ends the process through
  \<^verbatim>\<open>log.Fatal\<close>, or leaves the fragment of the \<^verbatim>\<open>fmt\<close> package described below.
\<close>

type_synonym key = string
type_synonym bytes = "8 word list"

datatype error = Error (message: string)

datatype 'a outcome = Return 'a | Panic string | Fatal string | Unmodelled

text \<open>
  An \<^verbatim>\<open>image.Image\<close> is an interface value: nil, or a raster with a width, a
  height and its pixels (red, green, blue, alpha).
\<close>

type_synonym colour = "8 word \<times> 8 word \<times> 8 word \<times> 8 word"

datatype image = nil_image | Raster nat nat "colour list"

subsection \<open>The fragment of \<^verbatim>\<open>fmt.Sprintf\<close> that the stores reach\<close>

text \<open>
  Both stores build their URL with \<^verbatim>\<open>fmt.Sprintf\<close> and string operands.  The format
  is scanned from left to right as the library's \<^verbatim>\<open>doPrintf\<close> does:
  \<^item> a byte other than \<^verbatim>\<open>%\<close> is copied;
  \<^item> \<^verbatim>\<open>%%\<close> writes one \<^verbatim>\<open>%\<close> and takes no operand;
  \<^item> \<^verbatim>\<open>%s\<close> and \<^verbatim>\<open>%v\<close> write the next operand, or \<^verbatim>\<open>%!s(MISSING)\<close> when none is left;
  \<^item> \<^verbatim>\<open>%\<close> followed by an upper-case letter other than \<^verbatim>\<open>X\<close> and \<^verbatim>\<open>T\<close> is a verb that
    no string accepts: it takes the next operand and writes \<^verbatim>\<open>%!C(string=...)\<close>, or
    \<^verbatim>\<open>%!C(MISSING)\<close> when none is left;
  \<^item> a \<^verbatim>\<open>%\<close> that ends the format writes \<^verbatim>\<open>%!(NOVERB)\<close>;
  \<^item> operands that no verb took are reported at the end as \<^verbatim>\<open>%!(EXTRA string=...)\<close>.
  Flags, widths, precisions, argument indexes and the remaining verbs are outside
  this fragment: there the result is \<open>None\<close>.
\<close>

fun extraOperands :: "string list \<Rightarrow> string" where
  "extraOperands [] = []"
| "extraOperands [x] = ''string='' @ x"
| "extraOperands (x # y # ys) = ''string='' @ x @ '', '' @ extraOperands (y # ys)"

definition extraString :: "string list \<Rightarrow> string" where
  "extraString a = (if a = [] then [] else ''%!(EXTRA '' @ extraOperands a @ '')'')"

definition badVerbForString :: "char \<Rightarrow> bool" where
  "badVerbForString v \<longleftrightarrow>
     v \<in> set ''ABCDEFGHIJKLMNOPQRSUVWYZ''"

fun doPrintf :: "string \<Rightarrow> string list \<Rightarrow> string option" where
  "doPrintf [] a = Some (extraString a)"
| "doPrintf [c] a =
     (if c = CHR ''%'' then Some (''%!(NOVERB)'' @ extraString a)
      else Some (c # extraString a))"
| "doPrintf (c # v # rest) a =
     (if c \<noteq> CHR ''%'' then map_option ((#) c) (doPrintf (v # rest) a)
      else if v = CHR ''%'' then map_option ((#) CHR ''%'') (doPrintf rest a)
      else if v = CHR ''s'' \<or> v = CHR ''v'' then
        (case a of
           [] \<Rightarrow> map_option ((@) (''%!'' @ [v] @ ''(MISSING)'')) (doPrintf rest [])
         | x # xs \<Rightarrow> map_option ((@) x) (doPrintf rest xs))
      else if badVerbForString v then
        (case a of
           [] \<Rightarrow> map_option ((@) (''%!'' @ [v] @ ''(MISSING)'')) (doPrintf rest [])
         | x # xs \<Rightarrow>
             map_option ((@) (''%!'' @ [v] @ ''(string='' @ x @ '')'')) (doPrintf rest xs))
      else None)"

definition fmt_Sprintf :: "string \<Rightarrow> string list \<Rightarrow> string option" where
  "fmt_Sprintf format a = doPrintf format a"

section \<open>InMemoryStore\<close>

text \<open>
  \<^verbatim>\<open>type InMemoryStore struct { images map[string]image.Image }\<close>

  A Go map value is nil or an allocated table; writing to the nil map panics, reading
  from it gives the zero value.  \<open>None\<close> is the nil map.
\<close>

record InMemoryStore =
  images :: "(key \<rightharpoonup> image) option"

definition NewInMemoryStore :: InMemoryStore where
  "NewInMemoryStore = \<lparr>images = Some Map.empty\<rparr>"

definition InMemoryStore_Put ::
  "InMemoryStore \<Rightarrow> key \<Rightarrow> image \<Rightarrow> (string \<times> error option) outcome \<times> InMemoryStore" where
  "InMemoryStore_Put store key img =
     (case images store of
        None \<Rightarrow> (Panic ''assignment to entry in nil map'', store)
      | Some m \<Rightarrow>
          (let store' = store\<lparr>images := Some (m(key \<mapsto> img))\<rparr> in
           case fmt_Sprintf ''http://127.0.0.1/%s'' [key] of
             None \<Rightarrow> (Unmodelled, store')
           | Some url \<Rightarrow> (Return (url, None), store')))"

definition InMemoryStore_Get :: "InMemoryStore \<Rightarrow> key \<Rightarrow> image" where
  "InMemoryStore_Get store key =
     (case images store of
        None \<Rightarrow> nil_image
      | Some m \<Rightarrow> (case m key of None \<Rightarrow> nil_image | Some img \<Rightarrow> img))"

definition InMemoryStore_clear :: "InMemoryStore \<Rightarrow> InMemoryStore" where
  "InMemoryStore_clear store = store\<lparr>images := Some Map.empty\<rparr>"

section \<open>S3Store\<close>

subsection \<open>The S3 client\<close>

text \<open>
  \<^verbatim>\<open>S3Store\<close> talks to its endpoint through six calls of the SDK's client.  The
  endpoint is outside the program, so it is a parameter: a state of some type \<open>'s\<close> and,
  for each call, a function from the request and the state to the answer and the next
  state.  Every request the program issues is appended to \<open>calls\<close>, and every line it
  logs to \<open>logs\<close>.

  A \<^verbatim>\<open>DeleteObjects\<close> batch is a slice of pointers \<^verbatim>\<open>[]*s3.ObjectIdentifier\<close>;
  \<open>None\<close> is the nil pointer, \<open>Some k\<close> an identifier with key \<open>k\<close>.
\<close>

datatype request =
    HeadBucket string
  | CreateBucket string
  | PutObject string key bytes
  | GetObject string key
  | ListObjects string
  | DeleteObjects string "key option list"

record ListObjectsOutput =
  Contents :: "key list"
  IsTruncated :: bool

record 's s3api =
  doHeadBucket :: "string \<Rightarrow> 's \<Rightarrow> error option \<times> 's"
  doCreateBucket :: "string \<Rightarrow> 's \<Rightarrow> error option \<times> 's"
  doPutObject :: "string \<Rightarrow> key \<Rightarrow> bytes \<Rightarrow> 's \<Rightarrow> error option \<times> 's"
  doGetObject :: "string \<Rightarrow> key \<Rightarrow> 's \<Rightarrow> (error + bytes) \<times> 's"
  doListObjects :: "string \<Rightarrow> 's \<Rightarrow> (error + ListObjectsOutput) \<times> 's"
  doDeleteObjects :: "string \<Rightarrow> key option list \<Rightarrow> 's \<Rightarrow> error option \<times> 's"

record 's world =
  remote :: 's
  calls :: "request list"
  logs :: "string list"

definition issue :: "request \<Rightarrow> 's \<Rightarrow> 's world \<Rightarrow> 's world" where
  "issue r s' w = w\<lparr>remote := s', calls := calls w @ [r]\<rparr>"

definition client_HeadBucket ::
  "'s s3api \<Rightarrow> string \<Rightarrow> 's world \<Rightarrow> error option \<times> 's world" where
  "client_HeadBucket api b w =
     (case doHeadBucket api b (remote w) of (r, s') \<Rightarrow> (r, issue (HeadBucket b) s' w))"

definition client_CreateBucket ::
  "'s s3api \<Rightarrow> string \<Rightarrow> 's world \<Rightarrow> error option \<times> 's world" where
  "client_CreateBucket api b w =
     (case doCreateBucket api b (remote w) of (r, s') \<Rightarrow> (r, issue (CreateBucket b) s' w))"

definition client_PutObject ::
  "'s s3api \<Rightarrow> string \<Rightarrow> key \<Rightarrow> bytes \<Rightarrow> 's world \<Rightarrow> error option \<times> 's world" where
  "client_PutObject api b k body w =
     (case doPutObject api b k body (remote w) of
        (r, s') \<Rightarrow> (r, issue (PutObject b k body) s' w))"

definition client_GetObject ::
  "'s s3api \<Rightarrow> string \<Rightarrow> key \<Rightarrow> 's world \<Rightarrow> (error + bytes) \<times> 's world" where
  "client_GetObject api b k w =
     (case doGetObject api b k (remote w) of (r, s') \<Rightarrow> (r, issue (GetObject b k) s' w))"

definition client_ListObjects ::
  "'s s3api \<Rightarrow> string \<Rightarrow> 's world \<Rightarrow> (error + ListObjectsOutput) \<times> 's world" where
  "client_ListObjects api b w =
     (case doListObjects api b (remote w) of (r, s') \<Rightarrow> (r, issue (ListObjects b) s' w))"

definition client_DeleteObjects ::
  "'s s3api \<Rightarrow> string \<Rightarrow> key option list \<Rightarrow> 's world \<Rightarrow> error option \<times> 's world" where
  "client_DeleteObjects api b batch w =
     (case doDeleteObjects api b batch (remote w) of
        (r, s') \<Rightarrow> (r, issue (DeleteObjects b batch) s' w))"

definition log_Print :: "string \<Rightarrow> error \<Rightarrow> 's world \<Rightarrow> 's world" where
  "log_Print msg err w = w\<lparr>logs := logs w @ [msg @ message err]\<rparr>"

subsection \<open>The JPEG codec\<close>

text \<open>
  \<^verbatim>\<open>jpeg.Encode\<close> and \<^verbatim>\<open>jpeg.Decode\<close> are library code; the codec is a parameter.
  \<^verbatim>\<open>jpeg.Encode\<close> starts by asking the image for its bounds, which panics on the nil
  interface value; the buffer it writes to never fails.
\<close>

record codec =
  enc :: "image \<Rightarrow> error + bytes"
  dec :: "bytes \<Rightarrow> error + image"

definition jpeg_Encode :: "codec \<Rightarrow> image \<Rightarrow> (error + bytes) outcome" where
  "jpeg_Encode c img =
     (if img = nil_image then Panic ''runtime error: invalid memory address or nil pointer dereference''
      else Return (enc c img))"

definition jpeg_Decode :: "codec \<Rightarrow> bytes \<Rightarrow> error + image" where
  "jpeg_Decode c body = dec c body"

subsection \<open>The store\<close>

definition bucketName :: string where
  "bucketName = ''link-images''"

record 's S3Store =
  client :: "'s s3api"
  urlPattern :: string

record aws_Config =
  Credentials :: "string \<times> string \<times> string"
  Endpoint :: string
  Region :: string
  DisableSSL :: bool
  S3ForcePathStyle :: bool

definition S3Store_createBucket :: "'s S3Store \<Rightarrow> 's world \<Rightarrow> unit outcome \<times> 's world" where
  "S3Store_createBucket store w =
     (case client_HeadBucket (client store) bucketName w of
        (None, w') \<Rightarrow> (Return (), w')
      | (Some err, w') \<Rightarrow>
          (case client_CreateBucket (client store) bucketName w' of
             (None, w'') \<Rightarrow> (Return (), w'')
           | (Some err', w'') \<Rightarrow>
               (Fatal (''Unexpected error creating an S3 bucket'' @ message err'), w'')))"

text \<open>
  \<open>s3_New\<close> stands for \<^verbatim>\<open>s3.New(session.New(s3Config))\<close>: the client the SDK builds
  for a configuration.
\<close>

definition NewS3Store ::
  "(aws_Config \<Rightarrow> 's s3api) \<Rightarrow> string \<Rightarrow> string \<Rightarrow> string \<Rightarrow> string \<Rightarrow> string \<Rightarrow> 's world
     \<Rightarrow> 's S3Store outcome \<times> 's world" where
  "NewS3Store s3_New host port accessKey accessSecret publicURL w =
     (case fmt_Sprintf ''http://%s:%s'' [host, port] of
        None \<Rightarrow> (Unmodelled, w)
      | Some endpoint \<Rightarrow>
          (let s3Config = \<lparr>Credentials = (accessKey, accessSecret, []),
                           Endpoint = endpoint,
                           Region = ''us-east-1'',
                           DisableSSL = True,
                           S3ForcePathStyle = True\<rparr>;
               store = \<lparr>client = s3_New s3Config,
                        urlPattern = publicURL @ ''/'' @ bucketName @ ''/%s''\<rparr>
           in case S3Store_createBucket store w of
                (Return u, w') \<Rightarrow> (Return store, w')
              | (Panic m, w') \<Rightarrow> (Panic m, w')
              | (Fatal m, w') \<Rightarrow> (Fatal m, w')
              | (Unmodelled, w') \<Rightarrow> (Unmodelled, w')))"

definition S3Store_Put ::
  "codec \<Rightarrow> 's S3Store \<Rightarrow> key \<Rightarrow> image \<Rightarrow> 's world
     \<Rightarrow> (string \<times> error option) outcome \<times> 's world" where
  "S3Store_Put c store key img w =
     (case jpeg_Encode c img of
        Return (Inl err) \<Rightarrow> (Return ([], Some err), w)
      | Return (Inr buf) \<Rightarrow>
          (case client_PutObject (client store) bucketName key buf w of
             (Some err, w') \<Rightarrow> (Return ([], Some err), w')
           | (None, w') \<Rightarrow>
               (case fmt_Sprintf (urlPattern store) [key] of
                  None \<Rightarrow> (Unmodelled, w')
                | Some url \<Rightarrow> (Return (url, None), w')))
      | Panic m \<Rightarrow> (Panic m, w)
      | Fatal m \<Rightarrow> (Fatal m, w)
      | Unmodelled \<Rightarrow> (Unmodelled, w))"

definition S3Store_Get :: "codec \<Rightarrow> 's S3Store \<Rightarrow> key \<Rightarrow> 's world \<Rightarrow> image \<times> 's world" where
  "S3Store_Get c store key w =
     (case client_GetObject (client store) bucketName key w of
        (Inl err, w') \<Rightarrow>
          (nil_image, log_Print ''Unexpected error retrieving image from S3'' err w')
      | (Inr body, w') \<Rightarrow>
          (case jpeg_Decode c body of
             Inl err \<Rightarrow>
               (nil_image,
                log_Print ''Unexpected error decoding image retrieved from S3'' err w')
           | Inr img \<Rightarrow> (img, w')))"

text \<open>
  In \<^verbatim>\<open>clear\<close>, \<^verbatim>\<open>make([]*s3.ObjectIdentifier, len(out.Contents))\<close> is a slice of that many
  nil pointers, and the loop appends one identifier for each listed object behind them.
\<close>

definition deletionBatch :: "key list \<Rightarrow> key option list" where
  "deletionBatch contents =
     foldl (\<lambda>objects k. objects @ [Some k]) (replicate (length contents) None) contents"

definition S3Store_clear :: "'s S3Store \<Rightarrow> 's world \<Rightarrow> unit outcome \<times> 's world" where
  "S3Store_clear store w =
     (case client_ListObjects (client store) bucketName w of
        (Inl err, w') \<Rightarrow>
          (Fatal (''Unexpected error listing all objects: '' @ message err), w')
      | (Inr out, w') \<Rightarrow>
          (let objects = deletionBatch (Contents out) in
           case client_DeleteObjects (client store) bucketName objects w' of
             (Some err, w'') \<Rightarrow>
               (Fatal (''Unexpected error deleting all objects: '' @ message err), w'')
           | (None, w'') \<Rightarrow> (Return (), w'')))"

subsection \<open>A reference endpoint\<close>

text \<open>
  What a \<^verbatim>\<open>Get\<close> sees after a \<^verbatim>\<open>Put\<close> or a \<^verbatim>\<open>clear\<close> depends on the endpoint.  The
  reference endpoint keeps, for each bucket, its objects in key order, the order of the
  bytes of the keys.  It answers as the S3 interface describes: a bucket exists once
  created; an object is stored, read and deleted by key; a listing is in key order, holds
  at most \<open>page\<close> keys and says whether it was truncated; a deletion batch is refused when
  one of its entries has no key or when it has more than \<open>page\<close> entries.  For S3 both
  limits are 1000.
\<close>

type_synonym bucket = "(key \<times> bytes) list"
type_synonym endpoint_state = "string \<rightharpoonup> bucket"

fun keyLess :: "key \<Rightarrow> key \<Rightarrow> bool" where
  "keyLess [] [] = False"
| "keyLess [] (y # ys) = True"
| "keyLess (x # xs) [] = False"
| "keyLess (x # xs) (y # ys) =
     ((of_char x :: nat) < of_char y \<or> (x = y \<and> keyLess xs ys))"

fun storeObject :: "key \<Rightarrow> bytes \<Rightarrow> bucket \<Rightarrow> bucket" where
  "storeObject k v [] = [(k, v)]"
| "storeObject k v ((k', v') # objs) =
     (if k' = k then (k, v) # objs
      else if keyLess k k' then (k, v) # (k', v') # objs
      else (k', v') # storeObject k v objs)"

definition removeObjects :: "key option list \<Rightarrow> bucket \<Rightarrow> bucket" where
  "removeObjects batch objs = filter (\<lambda>(k, v). Some k \<notin> set batch) objs"

definition reference_s3 :: "nat \<Rightarrow> endpoint_state s3api" where
  "reference_s3 page =
     \<lparr>doHeadBucket = (\<lambda>b s.
        (case s b of None \<Rightarrow> (Some (Error ''NotFound''), s) | Some objs \<Rightarrow> (None, s))),
      doCreateBucket = (\<lambda>b s.
        (case s b of
           None \<Rightarrow> (None, s(b \<mapsto> []))
         | Some objs \<Rightarrow> (Some (Error ''BucketAlreadyOwnedByYou''), s))),
      doPutObject = (\<lambda>b k body s.
        (case s b of
           None \<Rightarrow> (Some (Error ''NoSuchBucket''), s)
         | Some objs \<Rightarrow> (None, s(b \<mapsto> storeObject k body objs)))),
      doGetObject = (\<lambda>b k s.
        (case s b of
           None \<Rightarrow> (Inl (Error ''NoSuchBucket''), s)
         | Some objs \<Rightarrow>
             (case map_of objs k of
                None \<Rightarrow> (Inl (Error ''NoSuchKey''), s)
              | Some body \<Rightarrow> (Inr body, s)))),
      doListObjects = (\<lambda>b s.
        (case s b of
           None \<Rightarrow> (Inl (Error ''NoSuchBucket''), s)
         | Some objs \<Rightarrow>
             (Inr \<lparr>Contents = take page (map fst objs),
                   IsTruncated = (page < length objs)\<rparr>, s))),
      doDeleteObjects = (\<lambda>b batch s.
        (case s b of
           None \<Rightarrow> (Some (Error ''NoSuchBucket''), s)
         | Some objs \<Rightarrow>
             if None \<in> set batch \<or> page < length batch
             then (Some (Error ''MalformedXML''), s)
             else (None, s(b \<mapsto> removeObjects batch objs))))\<rparr>"

definition newWorld :: "'s \<Rightarrow> 's world" where
  "newWorld s = \<lparr>remote = s, calls = [], logs = []\<rparr>"

subsection \<open>Sample values\<close>

text \<open>
  The values the examples run on: a red square, an image too wide for JPEG, and a small
  codec that stands for the JPEG one.  Like \<^verbatim>\<open>jpeg.Encode\<close> it refuses an image with a
  side of 65536 pixels or more; like JPEG it is lossy (it has no alpha channel and it
  keeps the colours coarsely), its stream starts with the marker \<^verbatim>\<open>FF D8\<close>, and its
  decoder refuses a stream that does not.
\<close>

definition redSquare :: image where
  "redSquare = Raster 2 2 [(255, 0, 0, 255), (255, 0, 0, 255), (255, 0, 0, 255), (255, 0, 0, 255)]"

definition tooWide :: image where
  "tooWide = Raster 65536 1 []"

fun pixelsOf :: "bytes \<Rightarrow> colour list" where
  "pixelsOf (r # g # b # rest) = (r, g, b, 255) # pixelsOf rest"
| "pixelsOf rest = []"

definition coarse :: "8 word \<Rightarrow> 8 word" where
  "coarse v = of_nat (unat v div 8 * 8)"

definition sampleCodec :: codec where
  "sampleCodec =
     \<lparr>enc = (\<lambda>img.
        (case img of
           nil_image \<Rightarrow> Inl (Error ''jpeg: no image'')
         | Raster w h px \<Rightarrow>
             if 65536 \<le> w \<or> 65536 \<le> h then Inl (Error ''jpeg: image is too large to encode'')
             else Inr (255 # 216 # of_nat w # of_nat h #
                       concat (map (\<lambda>(r, g, b, a). [coarse r, coarse g, coarse b]) px)))),
      dec = (\<lambda>body.
        (case body of
           m # n # w # h # rest \<Rightarrow>
             if m = 255 \<and> n = 216 then Inr (Raster (unat w) (unat h) (pixelsOf rest))
             else Inl (Error ''invalid JPEG format: missing SOI marker'')
         | _ \<Rightarrow> Inl (Error ''unexpected EOF'')))\<rparr>"

definition sampleStore :: "nat \<Rightarrow> string \<Rightarrow> endpoint_state S3Store" where
  "sampleStore page publicURL =
     \<lparr>client = reference_s3 page, urlPattern = publicURL @ ''/'' @ bucketName @ ''/%s''\<rparr>"

definition unreachable_s3 :: "endpoint_state s3api" where
  "unreachable_s3 =
     \<lparr>doHeadBucket = (\<lambda>b s. (Some (Error ''connection refused''), s)),
      doCreateBucket = (\<lambda>b s. (Some (Error ''connection refused''), s)),
      doPutObject = (\<lambda>b k body s. (Some (Error ''connection refused''), s)),
      doGetObject = (\<lambda>b k s. (Inl (Error ''connection refused''), s)),
      doListObjects = (\<lambda>b s. (Inl (Error ''connection refused''), s)),
      doDeleteObjects = (\<lambda>b batch s. (Some (Error ''connection refused''), s))\<rparr>"

definition unreachableStore :: "endpoint_state S3Store" where
  "unreachableStore =
     \<lparr>client = unreachable_s3, urlPattern = ''http://localhost:9000/link-images/%s''\<rparr>"

definition redSquareJpeg :: bytes where
  "redSquareJpeg = [255, 216, 2, 2, 248, 0, 0, 248, 0, 0, 248, 0, 0, 248, 0, 0]"

definition redSquareDecoded :: image where
  "redSquareDecoded =
     Raster 2 2 [(248, 0, 0, 255), (248, 0, 0, 255), (248, 0, 0, 255), (248, 0, 0, 255)]"

definition emptyBucketWorld :: "endpoint_state world" where
  "emptyBucketWorld = newWorld [bucketName \<mapsto> []]"

definition corruptObjectWorld :: "endpoint_state world" where
  "corruptObjectWorld = newWorld [bucketName \<mapsto> [(''bad'', [])]]"

text \<open>
  Writing the same image under each key of a list, one \<^verbatim>\<open>Put\<close> after the other, and
  the keys \<^verbatim>\<open>k\<close>, \<^verbatim>\<open>kk\<close>, \<^verbatim>\<open>kkk\<close>, ... used for a bucket with many objects.
\<close>

definition putAll ::
  "codec \<Rightarrow> 's S3Store \<Rightarrow> key list \<Rightarrow> image \<Rightarrow> 's world \<Rightarrow> 's world" where
  "putAll c store ks img w = foldl (\<lambda>w' k. snd (S3Store_Put c store k img w')) w ks"

definition keysUpTo :: "nat \<Rightarrow> key list" where
  "keysUpTo n = map (\<lambda>i. replicate (Suc i) CHR ''k'') [0..<n]"

definition crowdedWorld :: "endpoint_state world" where
  "crowdedWorld =
     putAll sampleCodec (sampleStore 1000 ''http://localhost:9000'') (keysUpTo 1001) redSquare
       emptyBucketWorld"

section \<open>Properties of the formatting fragment\<close>

lemma doPrintf_plain:
  "CHR ''%'' \<notin> set p \<Longrightarrow> doPrintf (p @ ''%s'') [x] = Some (p @ x)"
proof (induction p)
  case Nil
  show ?case by (simp add: extraString_def)
next
  case (Cons c p)
  then have c: "c \<noteq> CHR ''%''" and ih: "doPrintf (p @ ''%s'') [x] = Some (p @ x)"
    by auto
  show ?case
  proof (cases p)
    case Nil
    with c show ?thesis by (simp add: extraString_def)
  next
    case (Cons d q)
    with c ih show ?thesis by simp
  qed
qed

lemma Sprintf_plain:
  "CHR ''%'' \<notin> set p \<Longrightarrow> fmt_Sprintf (p @ ''%s'') [x] = Some (p @ x)"
  by (simp add: fmt_Sprintf_def doPrintf_plain)

lemma Sprintf_local_url:
  "fmt_Sprintf ''http://127.0.0.1/%s'' [key] = Some (''http://127.0.0.1/'' @ key)"
  using Sprintf_plain [of "''http://127.0.0.1/''" key] by simp

section \<open>InMemoryStore: what Put and Get guarantee\<close>

text \<open>
  \<^verbatim>\<open>NewInMemoryStore\<close> and \<^verbatim>\<open>clear\<close> allocate the map, and \<^verbatim>\<open>Put\<close> keeps it allocated:
  a store that was made by the constructor never holds the nil map.
\<close>

lemma NewInMemoryStore_allocated: "images NewInMemoryStore \<noteq> None"
  by (simp add: NewInMemoryStore_def)

lemma InMemoryStore_clear_allocated: "images (InMemoryStore_clear store) \<noteq> None"
  by (simp add: InMemoryStore_clear_def)

lemma InMemoryStore_Put_allocated:
  "images store \<noteq> None \<Longrightarrow> images (snd (InMemoryStore_Put store k img)) \<noteq> None"
  by (auto simp: InMemoryStore_Put_def Sprintf_local_url)

lemma InMemoryStore_Put_nil_map:
  "images store = None \<Longrightarrow>
   InMemoryStore_Put store k img = (Panic ''assignment to entry in nil map'', store)"
  by (simp add: InMemoryStore_Put_def)

lemma InMemoryStore_Put_eq:
  "images store = Some m \<Longrightarrow>
   InMemoryStore_Put store k img =
     (Return (''http://127.0.0.1/'' @ k, None), store\<lparr>images := Some (m(k \<mapsto> img))\<rparr>)"
  by (simp add: InMemoryStore_Put_def Sprintf_local_url)

text \<open>
  C1.  On a store whose map is allocated, \<^verbatim>\<open>Put(k, i)\<close> returns, and the \<^verbatim>\<open>Get(k)\<close> that
  follows returns \<open>i\<close> itself: the same interface value, so the same pixels.
\<close>

theorem InMemoryStore_Put_Get:
  assumes "images store \<noteq> None"
  shows "(\<exists>r. fst (InMemoryStore_Put store k i) = Return r) \<and>
         InMemoryStore_Get (snd (InMemoryStore_Put store k i)) k = i"
proof -
  from assms obtain m where m: "images store = Some m" by auto
  show ?thesis
    by (simp add: InMemoryStore_Put_eq [OF m] InMemoryStore_Get_def)
qed

theorem InMemoryStore_Put_Get_witness:
  "images NewInMemoryStore \<noteq> None \<and>
   (\<exists>r. fst (InMemoryStore_Put NewInMemoryStore ''abc'' redSquare) = Return r) \<and>
   InMemoryStore_Get (snd (InMemoryStore_Put NewInMemoryStore ''abc'' redSquare)) ''abc''
     = redSquare"
  using InMemoryStore_Put_Get [of NewInMemoryStore "''abc''" redSquare]
  by (simp add: NewInMemoryStore_def)

text \<open>
  C2.  On a store whose map is allocated, \<^verbatim>\<open>Put\<close> returns the nil error and the URL
  \<^verbatim>\<open>http://127.0.0.1/<key>\<close>, whatever the key and the image.
\<close>

theorem InMemoryStore_Put_url:
  assumes "images store \<noteq> None"
  shows "fst (InMemoryStore_Put store k img) = Return (''http://127.0.0.1/'' @ k, None)"
proof -
  from assms obtain m where m: "images store = Some m" by auto
  show ?thesis
    by (simp add: InMemoryStore_Put_eq [OF m])
qed

theorem InMemoryStore_Put_url_witness:
  "images NewInMemoryStore \<noteq> None \<and>
   fst (InMemoryStore_Put NewInMemoryStore ''abc'' redSquare)
     = Return (''http://127.0.0.1/abc'', None)"
  using InMemoryStore_Put_url [of NewInMemoryStore "''abc''" redSquare]
  by (simp add: NewInMemoryStore_def)

text \<open>
  C10.  \<^verbatim>\<open>Put(k, i)\<close> changes the store at \<open>k\<close> only: at every other key \<^verbatim>\<open>Get\<close> returns
  after the \<^verbatim>\<open>Put\<close> what it returned before.
\<close>

theorem InMemoryStore_Put_frame:
  assumes "k' \<noteq> k"
  shows "InMemoryStore_Get (snd (InMemoryStore_Put store k i)) k' = InMemoryStore_Get store k'"
proof (cases "images store")
  case None
  then show ?thesis by (simp add: InMemoryStore_Put_nil_map)
next
  case (Some m)
  with assms show ?thesis
    by (simp add: InMemoryStore_Put_eq [OF Some] InMemoryStore_Get_def)
qed

theorem InMemoryStore_Put_frame_witness:
  "''abc'' \<noteq> ''xyz'' \<and>
   InMemoryStore_Get
     (snd (InMemoryStore_Put (snd (InMemoryStore_Put NewInMemoryStore ''abc'' redSquare))
        ''xyz'' nil_image)) ''abc'' = redSquare"
proof -
  have ne: "''abc'' \<noteq> ''xyz''" by simp
  have "InMemoryStore_Get (snd (InMemoryStore_Put NewInMemoryStore ''abc'' redSquare)) ''abc''
          = redSquare"
    by (simp add: InMemoryStore_Put_def InMemoryStore_Get_def NewInMemoryStore_def
        Sprintf_local_url)
  with ne InMemoryStore_Put_frame [OF ne,
      of "snd (InMemoryStore_Put NewInMemoryStore ''abc'' redSquare)" nil_image]
  show ?thesis by simp
qed

section \<open>S3Store.Put\<close>

lemma tooWide_not_nil: "tooWide \<noteq> nil_image"
  by (simp add: tooWide_def)

lemma redSquare_not_nil: "redSquare \<noteq> nil_image"
  by (simp add: redSquare_def)

lemma enc_tooWide:
  "enc sampleCodec tooWide = Inl (Error ''jpeg: image is too large to encode'')"
  by (simp add: sampleCodec_def tooWide_def)

lemma coarse_255: "coarse 255 = 248"
  by (simp add: coarse_def)

lemma coarse_0: "coarse 0 = 0"
  by (simp add: coarse_def)

lemma enc_redSquare: "enc sampleCodec redSquare = Inr redSquareJpeg"
  by (simp add: sampleCodec_def redSquare_def redSquareJpeg_def coarse_255 coarse_0)

lemma dec_redSquare: "dec sampleCodec redSquareJpeg = Inr redSquareDecoded"
  by (simp add: sampleCodec_def redSquareDecoded_def redSquareJpeg_def)

lemma redSquareDecoded_not_nil: "redSquareDecoded \<noteq> nil_image"
  by (simp add: redSquareDecoded_def)

lemma sampleCodec_lossy: "redSquareDecoded \<noteq> redSquare"
  by (simp add: redSquareDecoded_def redSquare_def)

lemma jpeg_Encode_tooWide:
  "jpeg_Encode sampleCodec tooWide
     = Return (Inl (Error ''jpeg: image is too large to encode''))"
  by (simp add: jpeg_Encode_def tooWide_not_nil enc_tooWide)

lemma jpeg_Encode_redSquare: "jpeg_Encode sampleCodec redSquare = Return (Inr redSquareJpeg)"
  by (simp add: jpeg_Encode_def redSquare_not_nil enc_redSquare)

text \<open>The body of \<^verbatim>\<open>Put\<close> with the calls of the client spelled out.\<close>

lemma S3Store_Put_cases:
  "S3Store_Put c store k img w =
     (if img = nil_image then (Panic ''runtime error: invalid memory address or nil pointer dereference'', w)
      else case enc c img of
        Inl err \<Rightarrow> (Return ([], Some err), w)
      | Inr buf \<Rightarrow>
          (case doPutObject (client store) bucketName k buf (remote w) of
             (Some err, s') \<Rightarrow> (Return ([], Some err), issue (PutObject bucketName k buf) s' w)
           | (None, s') \<Rightarrow>
               (case fmt_Sprintf (urlPattern store) [k] of
                  None \<Rightarrow> (Unmodelled, issue (PutObject bucketName k buf) s' w)
                | Some url \<Rightarrow> (Return (url, None), issue (PutObject bucketName k buf) s' w))))"
  by (simp add: S3Store_Put_def jpeg_Encode_def client_PutObject_def
      split: sum.splits prod.splits option.splits)

text \<open>
  C9.  When \<^verbatim>\<open>S3Store.Put\<close> returns an error, the URL it returns with it is the empty
  string, for every codec and every endpoint.
\<close>

theorem S3Store_Put_error_no_url:
  assumes "fst (S3Store_Put c store k img w) = Return (url, Some err)"
  shows "url = []"
  using assms
  by (auto simp: S3Store_Put_cases split: if_splits sum.splits prod.splits option.splits)

theorem S3Store_Put_error_no_url_witness:
  "fst (S3Store_Put sampleCodec (sampleStore 1000 ''http://localhost:9000'') ''xyz'' tooWide
      (newWorld Map.empty))
     = Return ([], Some (Error ''jpeg: image is too large to encode''))
   \<and> ([] :: string) = []"
proof -
  have h: "fst (S3Store_Put sampleCodec (sampleStore 1000 ''http://localhost:9000'') ''xyz''
      tooWide (newWorld Map.empty))
     = Return ([], Some (Error ''jpeg: image is too large to encode''))"
    by (simp add: S3Store_Put_cases enc_tooWide tooWide_not_nil)
  from h S3Store_Put_error_no_url [OF h] show ?thesis by simp
qed

text \<open>
  C5.  When the encoder returns an error, \<^verbatim>\<open>Put\<close> returns that error and leaves the
  world as it found it: no request was issued.  When the encoder succeeds and the upload
  returns an error, \<^verbatim>\<open>Put\<close> returns that error.
\<close>

theorem S3Store_Put_failures:
  "(jpeg_Encode c img = Return (Inl err) \<longrightarrow>
      S3Store_Put c store k img w = (Return ([], Some err), w)) \<and>
   (jpeg_Encode c img = Return (Inr buf) \<and>
    fst (client_PutObject (client store) bucketName k buf w) = Some err \<longrightarrow>
      fst (S3Store_Put c store k img w) = Return ([], Some err))"
  by (auto simp: S3Store_Put_def split: prod.splits option.splits)

theorem S3Store_Put_failures_witness:
  "jpeg_Encode sampleCodec tooWide
     = Return (Inl (Error ''jpeg: image is too large to encode'')) \<and>
   S3Store_Put sampleCodec (sampleStore 1000 ''http://localhost:9000'') ''xyz'' tooWide
      (newWorld Map.empty)
     = (Return ([], Some (Error ''jpeg: image is too large to encode'')), newWorld Map.empty) \<and>
   jpeg_Encode sampleCodec redSquare = Return (Inr redSquareJpeg) \<and>
   fst (client_PutObject (client unreachableStore) bucketName ''xyz'' redSquareJpeg
          (newWorld Map.empty))
     = Some (Error ''connection refused'') \<and>
   fst (S3Store_Put sampleCodec unreachableStore ''xyz'' redSquare (newWorld Map.empty))
     = Return ([], Some (Error ''connection refused''))"
proof -
  note e1 = jpeg_Encode_tooWide
  note e2 = jpeg_Encode_redSquare
  have u: "fst (client_PutObject (client unreachableStore) bucketName ''xyz'' redSquareJpeg
                 (newWorld Map.empty))
             = Some (Error ''connection refused'')"
    by (simp add: client_PutObject_def unreachableStore_def unreachable_s3_def)
  from S3Store_Put_failures
    [of sampleCodec tooWide "Error ''jpeg: image is too large to encode''"
        "sampleStore 1000 ''http://localhost:9000''" "''xyz''" "newWorld Map.empty"]
    e1
  have a: "S3Store_Put sampleCodec (sampleStore 1000 ''http://localhost:9000'') ''xyz'' tooWide
      (newWorld Map.empty)
     = (Return ([], Some (Error ''jpeg: image is too large to encode'')), newWorld Map.empty)"
    by blast
  from S3Store_Put_failures
    [of sampleCodec redSquare "Error ''connection refused''" unreachableStore
        "''xyz''" "newWorld Map.empty" redSquareJpeg]
    e2 u
  have b: "fst (S3Store_Put sampleCodec unreachableStore ''xyz'' redSquare (newWorld Map.empty))
     = Return ([], Some (Error ''connection refused''))"
    by blast
  from e1 a e2 u b show ?thesis by simp
qed

lemma Sprintf_endpoint:
  "fmt_Sprintf ''http://%s:%s'' [host, port] = Some (''http://'' @ host @ '':'' @ port)"
  by (simp add: fmt_Sprintf_def extraString_def)

section \<open>S3Store.Get\<close>

lemma S3Store_Get_cases:
  "S3Store_Get c store k w =
     (case doGetObject (client store) bucketName k (remote w) of
        (Inl err, s') \<Rightarrow>
          (nil_image, log_Print ''Unexpected error retrieving image from S3'' err
             (issue (GetObject bucketName k) s' w))
      | (Inr body, s') \<Rightarrow>
          (case dec c body of
             Inl err \<Rightarrow>
               (nil_image, log_Print ''Unexpected error decoding image retrieved from S3'' err
                  (issue (GetObject bucketName k) s' w))
           | Inr img \<Rightarrow> (img, issue (GetObject bucketName k) s' w)))"
  by (simp add: S3Store_Get_def client_GetObject_def jpeg_Decode_def
      split: prod.splits sum.splits)

lemma reference_GetObject:
  "doGetObject (reference_s3 page) b k s =
     (case s b of
        None \<Rightarrow> (Inl (Error ''NoSuchBucket''), s)
      | Some objs \<Rightarrow>
          (case map_of objs k of
             None \<Rightarrow> (Inl (Error ''NoSuchKey''), s)
           | Some body \<Rightarrow> (Inr body, s)))"
  by (simp add: reference_s3_def)

lemma client_sampleStore [simp]: "client (sampleStore page url) = reference_s3 page"
  by (simp add: sampleStore_def)

text \<open>
  C3.  \<^verbatim>\<open>Get\<close> has no error result and none of its branches panics or ends the process.
  It returns the nil image
  \<^item> from the in-memory store, for a key the map does not hold (the nil map holds none);
  \<^item> from the S3 store, when the \<^verbatim>\<open>GetObject\<close> call returns an error;
  \<^item> from the S3 store, when the object is retrieved and the decoder returns an error;
  \<^item> from the S3 store on the reference endpoint, for a key the bucket does not hold.
  The caller gets the same value in all four cases.
\<close>

theorem Get_absent_or_failed:
  "((case images store of None \<Rightarrow> True | Some m \<Rightarrow> m k = None) \<longrightarrow>
      InMemoryStore_Get store k = nil_image) \<and>
   (fst (client_GetObject (client s3) bucketName k w) = Inl err \<longrightarrow>
      fst (S3Store_Get c s3 k w) = nil_image) \<and>
   (fst (client_GetObject (client s3) bucketName k w) = Inr body \<and>
    jpeg_Decode c body = Inl err \<longrightarrow>
      fst (S3Store_Get c s3 k w) = nil_image) \<and>
   (remote v bucketName = Some objs \<and> map_of objs k = None \<longrightarrow>
      fst (S3Store_Get c (sampleStore page url) k v) = nil_image)"
proof (intro conjI impI)
  assume "case images store of None \<Rightarrow> True | Some m \<Rightarrow> m k = None"
  then show "InMemoryStore_Get store k = nil_image"
    by (simp add: InMemoryStore_Get_def split: option.splits)
next
  assume "fst (client_GetObject (client s3) bucketName k w) = Inl err"
  then show "fst (S3Store_Get c s3 k w) = nil_image"
    by (auto simp add: S3Store_Get_def split: prod.splits)
next
  assume "fst (client_GetObject (client s3) bucketName k w) = Inr body \<and>
    jpeg_Decode c body = Inl err"
  then show "fst (S3Store_Get c s3 k w) = nil_image"
    by (auto simp add: S3Store_Get_def split: prod.splits)
next
  assume "remote v bucketName = Some objs \<and> map_of objs k = None"
  then show "fst (S3Store_Get c (sampleStore page url) k v) = nil_image"
    by (simp add: S3Store_Get_cases reference_GetObject)
qed


theorem Get_absent_or_failed_witness:
  "images NewInMemoryStore = Some Map.empty \<and>
   InMemoryStore_Get NewInMemoryStore ''missing'' = nil_image \<and>
   fst (client_GetObject (client unreachableStore) bucketName ''missing'' (newWorld Map.empty))
     = Inl (Error ''connection refused'') \<and>
   fst (S3Store_Get sampleCodec unreachableStore ''missing'' (newWorld Map.empty)) = nil_image \<and>
   fst (client_GetObject (client (sampleStore 1000 ''http://localhost:9000'')) bucketName ''bad''
          corruptObjectWorld) = Inr [] \<and>
   jpeg_Decode sampleCodec [] = Inl (Error ''unexpected EOF'') \<and>
   fst (S3Store_Get sampleCodec (sampleStore 1000 ''http://localhost:9000'') ''bad''
          corruptObjectWorld) = nil_image \<and>
   remote emptyBucketWorld bucketName = Some [] \<and>
   fst (S3Store_Get sampleCodec (sampleStore 1000 ''http://localhost:9000'') ''missing''
          emptyBucketWorld) = nil_image"
proof -
  have h1: "case images NewInMemoryStore of None \<Rightarrow> True | Some m \<Rightarrow> m ''missing'' = None"
    by (simp add: NewInMemoryStore_def)
  have h2: "fst (client_GetObject (client unreachableStore) bucketName ''missing''
                  (newWorld Map.empty)) = Inl (Error ''connection refused'')"
    by (simp add: client_GetObject_def unreachableStore_def unreachable_s3_def)
  have h3: "fst (client_GetObject (client (sampleStore 1000 ''http://localhost:9000''))
                  bucketName ''bad'' corruptObjectWorld) = Inr []"
    by (simp add: client_GetObject_def reference_GetObject corruptObjectWorld_def newWorld_def)
  have h4: "jpeg_Decode sampleCodec [] = Inl (Error ''unexpected EOF'')"
    by (simp add: jpeg_Decode_def sampleCodec_def)
  have h5: "remote emptyBucketWorld bucketName = Some [] \<and> map_of [] ''missing'' = None"
    by (simp add: emptyBucketWorld_def newWorld_def)
  note t1 = Get_absent_or_failed
    [where store = NewInMemoryStore and k = "''missing''" and ?s3.0 = unreachableStore
       and w = "newWorld Map.empty" and err = "Error ''connection refused''"
       and c = sampleCodec and v = emptyBucketWorld and objs = "[]" and page = 1000
       and url = "''http://localhost:9000''"]
  note t2 = Get_absent_or_failed
    [where k = "''bad''" and ?s3.0 = "sampleStore 1000 ''http://localhost:9000''"
       and w = corruptObjectWorld and err = "Error ''unexpected EOF''"
       and c = sampleCodec and body = "[]"]
  from t1 h1 have a: "InMemoryStore_Get NewInMemoryStore ''missing'' = nil_image"
    by blast
  from t1 h2 have b:
    "fst (S3Store_Get sampleCodec unreachableStore ''missing'' (newWorld Map.empty)) = nil_image"
    by blast
  from t2 h3 h4 have c:
    "fst (S3Store_Get sampleCodec (sampleStore 1000 ''http://localhost:9000'') ''bad''
            corruptObjectWorld) = nil_image"
    by blast
  from t1 h5 have d:
    "fst (S3Store_Get sampleCodec (sampleStore 1000 ''http://localhost:9000'') ''missing''
            emptyBucketWorld) = nil_image"
    by blast
  have i: "images NewInMemoryStore = Some Map.empty"
    by (simp add: NewInMemoryStore_def)
  from i a h2 b h3 h4 c h5 d show ?thesis by simp
qed

section \<open>S3Store: construction\<close>

lemma S3Store_createBucket_cases:
  "S3Store_createBucket store w =
     (case doHeadBucket (client store) bucketName (remote w) of
        (None, s') \<Rightarrow> (Return (), issue (HeadBucket bucketName) s' w)
      | (Some err, s') \<Rightarrow>
          (case doCreateBucket (client store) bucketName s' of
             (None, s'') \<Rightarrow>
               (Return (),
                issue (CreateBucket bucketName) s'' (issue (HeadBucket bucketName) s' w))
           | (Some err', s'') \<Rightarrow>
               (Fatal (''Unexpected error creating an S3 bucket'' @ message err'),
                issue (CreateBucket bucketName) s'' (issue (HeadBucket bucketName) s' w))))"
  by (simp add: S3Store_createBucket_def client_HeadBucket_def client_CreateBucket_def issue_def
      split: prod.splits option.splits)

lemma NewS3Store_cases:
  "NewS3Store s3_New host port accessKey accessSecret publicURL w =
     (let store = \<lparr>client = s3_New \<lparr>Credentials = (accessKey, accessSecret, []),
                                      Endpoint = ''http://'' @ host @ '':'' @ port,
                                      Region = ''us-east-1'',
                                      DisableSSL = True,
                                      S3ForcePathStyle = True\<rparr>,
                    urlPattern = publicURL @ ''/'' @ bucketName @ ''/%s''\<rparr>
      in case S3Store_createBucket store w of
           (Return u, w') \<Rightarrow> (Return store, w')
         | (Panic m, w') \<Rightarrow> (Panic m, w')
         | (Fatal m, w') \<Rightarrow> (Fatal m, w')
         | (Unmodelled, w') \<Rightarrow> (Unmodelled, w'))"
  by (simp add: NewS3Store_def Sprintf_endpoint)

lemma NewS3Store_world:
  "snd (NewS3Store s3_New host port accessKey accessSecret publicURL w) =
   snd (S3Store_createBucket
          \<lparr>client = s3_New \<lparr>Credentials = (accessKey, accessSecret, []),
                             Endpoint = ''http://'' @ host @ '':'' @ port,
                             Region = ''us-east-1'',
                             DisableSSL = True,
                             S3ForcePathStyle = True\<rparr>,
           urlPattern = publicURL @ ''/'' @ bucketName @ ''/%s''\<rparr> w)"
  by (simp add: NewS3Store_cases Let_def split: prod.splits outcome.splits)

lemma reference_HeadBucket:
  "doHeadBucket (reference_s3 page) b s =
     (case s b of None \<Rightarrow> (Some (Error ''NotFound''), s) | Some objs \<Rightarrow> (None, s))"
  by (simp add: reference_s3_def)

lemma reference_CreateBucket:
  "doCreateBucket (reference_s3 page) b s =
     (case s b of
        None \<Rightarrow> (None, s(b \<mapsto> []))
      | Some objs \<Rightarrow> (Some (Error ''BucketAlreadyOwnedByYou''), s))"
  by (simp add: reference_s3_def)

lemma reference_createBucket:
  "client store = reference_s3 page \<Longrightarrow>
   S3Store_createBucket store w =
     (case remote w bucketName of
        Some objs \<Rightarrow> (Return (), issue (HeadBucket bucketName) (remote w) w)
      | None \<Rightarrow>
          (Return (),
           issue (CreateBucket bucketName) ((remote w)(bucketName \<mapsto> []))
             (issue (HeadBucket bucketName) (remote w) w)))"
  by (simp add: S3Store_createBucket_cases reference_HeadBucket reference_CreateBucket
      split: option.splits)

text \<open>
  C8.  \<^verbatim>\<open>createBucket\<close> issues \<^verbatim>\<open>HeadBucket\<close> for the bucket \<^verbatim>\<open>link-images\<close> first, and
  \<^verbatim>\<open>CreateBucket\<close> after it exactly when \<^verbatim>\<open>HeadBucket\<close> returned an error; it returns
  exactly when one of the two calls succeeded, and ends the process otherwise.
  \<^verbatim>\<open>NewS3Store\<close> leaves the world \<^verbatim>\<open>createBucket\<close> leaves.  On the reference endpoint the
  constructor returns the store, the bucket exists afterwards, and when it existed before
  the only request is the \<^verbatim>\<open>HeadBucket\<close> and the endpoint is unchanged.
\<close>

theorem createBucket_checks_then_creates:
  "calls (snd (S3Store_createBucket store w)) =
     calls w @ HeadBucket bucketName #
       (case fst (client_HeadBucket (client store) bucketName w) of
          None \<Rightarrow> []
        | Some err \<Rightarrow> [CreateBucket bucketName]) \<and>
   (fst (S3Store_createBucket store w) = Return () \<longleftrightarrow>
      fst (client_HeadBucket (client store) bucketName w) = None \<or>
      fst (client_CreateBucket (client store) bucketName
             (snd (client_HeadBucket (client store) bucketName w))) = None) \<and>
   snd (NewS3Store s3_New host port accessKey accessSecret publicURL w) =
     snd (S3Store_createBucket
            \<lparr>client = s3_New \<lparr>Credentials = (accessKey, accessSecret, []),
                               Endpoint = ''http://'' @ host @ '':'' @ port,
                               Region = ''us-east-1'',
                               DisableSSL = True,
                               S3ForcePathStyle = True\<rparr>,
             urlPattern = publicURL @ ''/'' @ bucketName @ ''/%s''\<rparr> w) \<and>
   fst (NewS3Store (\<lambda>cfg. reference_s3 page) host port accessKey accessSecret publicURL v)
     = Return (sampleStore page publicURL) \<and>
   remote (snd (NewS3Store (\<lambda>cfg. reference_s3 page) host port accessKey accessSecret
                  publicURL v)) bucketName \<noteq> None \<and>
   (remote v bucketName \<noteq> None \<longrightarrow>
      snd (NewS3Store (\<lambda>cfg. reference_s3 page) host port accessKey accessSecret publicURL v)
        = v\<lparr>calls := calls v @ [HeadBucket bucketName]\<rparr>)"
proof (intro conjI impI)
  show "calls (snd (S3Store_createBucket store w)) =
     calls w @ HeadBucket bucketName #
       (case fst (client_HeadBucket (client store) bucketName w) of
          None \<Rightarrow> []
        | Some err \<Rightarrow> [CreateBucket bucketName])"
    by (simp add: S3Store_createBucket_cases client_HeadBucket_def issue_def
        split: prod.splits option.splits)
next
  show "fst (S3Store_createBucket store w) = Return () \<longleftrightarrow>
      fst (client_HeadBucket (client store) bucketName w) = None \<or>
      fst (client_CreateBucket (client store) bucketName
             (snd (client_HeadBucket (client store) bucketName w))) = None"
    by (simp add: S3Store_createBucket_cases client_HeadBucket_def client_CreateBucket_def
        issue_def split: prod.splits option.splits)
next
  show "snd (NewS3Store s3_New host port accessKey accessSecret publicURL w) =
     snd (S3Store_createBucket
            \<lparr>client = s3_New \<lparr>Credentials = (accessKey, accessSecret, []),
                               Endpoint = ''http://'' @ host @ '':'' @ port,
                               Region = ''us-east-1'',
                               DisableSSL = True,
                               S3ForcePathStyle = True\<rparr>,
             urlPattern = publicURL @ ''/'' @ bucketName @ ''/%s''\<rparr> w)"
    by (rule NewS3Store_world)
next
  show "fst (NewS3Store (\<lambda>cfg. reference_s3 page) host port accessKey accessSecret publicURL v)
     = Return (sampleStore page publicURL)"
    by (simp add: NewS3Store_cases reference_createBucket sampleStore_def Let_def
        split: option.splits)
  show "remote (snd (NewS3Store (\<lambda>cfg. reference_s3 page) host port accessKey accessSecret
                  publicURL v)) bucketName \<noteq> None"
    by (simp add: NewS3Store_world reference_createBucket issue_def split: option.splits)
  assume "remote v bucketName \<noteq> None"
  then show "snd (NewS3Store (\<lambda>cfg. reference_s3 page) host port accessKey accessSecret
                    publicURL v) = v\<lparr>calls := calls v @ [HeadBucket bucketName]\<rparr>"
    by (auto simp add: NewS3Store_world reference_createBucket issue_def)
qed


theorem createBucket_checks_then_creates_witness:
  "remote emptyBucketWorld bucketName \<noteq> None \<and>
   snd (NewS3Store (\<lambda>cfg. reference_s3 1000) ''localhost'' ''9000'' ''key'' ''secret''
          ''http://localhost:9000'' emptyBucketWorld)
     = emptyBucketWorld\<lparr>calls := [HeadBucket ''link-images'']\<rparr> \<and>
   calls (snd (NewS3Store (\<lambda>cfg. reference_s3 1000) ''localhost'' ''9000'' ''key'' ''secret''
                 ''http://localhost:9000'' (newWorld Map.empty)))
     = [HeadBucket ''link-images'', CreateBucket ''link-images''] \<and>
   fst (NewS3Store (\<lambda>cfg. reference_s3 1000) ''localhost'' ''9000'' ''key'' ''secret''
          ''http://localhost:9000'' (newWorld Map.empty))
     = Return (sampleStore 1000 ''http://localhost:9000'')"
proof -
  have h: "remote emptyBucketWorld bucketName \<noteq> None"
    by (simp add: emptyBucketWorld_def newWorld_def)
  have c0: "calls emptyBucketWorld = []"
    by (simp add: emptyBucketWorld_def newWorld_def)
  have hd: "fst (client_HeadBucket (reference_s3 1000) bucketName (newWorld Map.empty))
              = Some (Error ''NotFound'')"
    by (simp add: client_HeadBucket_def reference_HeadBucket newWorld_def)
  note t = createBucket_checks_then_creates
    [where store = "\<lparr>client = reference_s3 1000,
                       urlPattern = ''http://localhost:9000'' @ ''/'' @ bucketName @ ''/%s''\<rparr>"
       and ?s3_New.0 = "\<lambda>cfg. reference_s3 1000"
       and w = "newWorld Map.empty" and v = emptyBucketWorld and page = 1000
       and host = "''localhost''" and port = "''9000''" and accessKey = "''key''"
       and accessSecret = "''secret''" and publicURL = "''http://localhost:9000''"]
  note u = createBucket_checks_then_creates
    [where page = 1000 and v = "newWorld Map.empty"
       and host = "''localhost''" and port = "''9000''" and accessKey = "''key''"
       and accessSecret = "''secret''" and publicURL = "''http://localhost:9000''"]
  from t h c0 have a:
    "snd (NewS3Store (\<lambda>cfg. reference_s3 1000) ''localhost'' ''9000'' ''key'' ''secret''
          ''http://localhost:9000'' emptyBucketWorld)
     = emptyBucketWorld\<lparr>calls := [HeadBucket ''link-images'']\<rparr>"
    by (simp add: bucketName_def)
  from t hd have b:
    "calls (snd (NewS3Store (\<lambda>cfg. reference_s3 1000) ''localhost'' ''9000'' ''key'' ''secret''
                 ''http://localhost:9000'' (newWorld Map.empty)))
     = [HeadBucket ''link-images'', CreateBucket ''link-images'']"
    by (simp add: bucketName_def newWorld_def)
  from u have c:
    "fst (NewS3Store (\<lambda>cfg. reference_s3 1000) ''localhost'' ''9000'' ''key'' ''secret''
          ''http://localhost:9000'' (newWorld Map.empty))
     = Return (sampleStore 1000 ''http://localhost:9000'')"
    by blast
  from h a b c show ?thesis by simp
qed

section \<open>S3Store.clear\<close>

text \<open>
  The batch: as many nil entries as the listing has objects, then one identifier for each
  object.
\<close>

lemma append_loop: "foldl (\<lambda>objects k. objects @ [Some k]) acc ks = acc @ map Some ks"
  by (induction ks arbitrary: acc) simp_all

lemma deletionBatch_eq:
  "deletionBatch contents = replicate (length contents) None @ map Some contents"
  by (simp add: deletionBatch_def append_loop)

lemma deletionBatch_empty: "deletionBatch [] = []"
  by (simp add: deletionBatch_eq)

lemma deletionBatch_nil_entries:
  "contents \<noteq> [] \<Longrightarrow> hd (deletionBatch contents) = None"
  by (cases contents) (simp_all add: deletionBatch_eq)

lemma length_deletionBatch: "length (deletionBatch contents) = 2 * length contents"
  by (simp add: deletionBatch_eq)

lemma nil_in_deletionBatch: "None \<in> set (deletionBatch contents) \<longleftrightarrow> contents \<noteq> []"
  by (auto simp add: deletionBatch_eq)

lemma key_in_deletionBatch: "Some k \<in> set (deletionBatch contents) \<longleftrightarrow> k \<in> set contents"
  by (auto simp add: deletionBatch_eq)

lemma S3Store_clear_cases:
  "S3Store_clear store w =
     (case doListObjects (client store) bucketName (remote w) of
        (Inl err, s') \<Rightarrow>
          (Fatal (''Unexpected error listing all objects: '' @ message err),
           issue (ListObjects bucketName) s' w)
      | (Inr out, s') \<Rightarrow>
          (case doDeleteObjects (client store) bucketName (deletionBatch (Contents out)) s' of
             (Some err, s'') \<Rightarrow>
               (Fatal (''Unexpected error deleting all objects: '' @ message err),
                issue (DeleteObjects bucketName (deletionBatch (Contents out))) s''
                  (issue (ListObjects bucketName) s' w))
           | (None, s'') \<Rightarrow>
               (Return (),
                issue (DeleteObjects bucketName (deletionBatch (Contents out))) s''
                  (issue (ListObjects bucketName) s' w))))"
  by (simp add: S3Store_clear_def client_ListObjects_def client_DeleteObjects_def issue_def
      split: prod.splits sum.splits option.splits)

lemma reference_ListObjects:
  "doListObjects (reference_s3 page) b s =
     (case s b of
        None \<Rightarrow> (Inl (Error ''NoSuchBucket''), s)
      | Some objs \<Rightarrow>
          (Inr \<lparr>Contents = take page (map fst objs), IsTruncated = (page < length objs)\<rparr>, s))"
  by (simp add: reference_s3_def)

lemma reference_DeleteObjects:
  "doDeleteObjects (reference_s3 page) b batch s =
     (case s b of
        None \<Rightarrow> (Some (Error ''NoSuchBucket''), s)
      | Some objs \<Rightarrow>
          if None \<in> set batch \<or> page < length batch
          then (Some (Error ''MalformedXML''), s)
          else (None, s(b \<mapsto> removeObjects batch objs)))"
  by (simp add: reference_s3_def)

lemma reference_clear_empty:
  assumes "client store = reference_s3 page" and "remote w bucketName = Some []"
  shows "S3Store_clear store w =
     (Return (), w\<lparr>calls := calls w @ [ListObjects bucketName, DeleteObjects bucketName []]\<rparr>)"
proof -
  from assms(2) have same: "(remote w)(bucketName \<mapsto> []) = remote w"
    by (rule map_upd_triv)
  from assms show ?thesis
    by (simp add: S3Store_clear_cases reference_ListObjects reference_DeleteObjects
        deletionBatch_empty removeObjects_def issue_def same)
qed

lemma reference_clear_refused:
  assumes "client store = reference_s3 page" and "remote w bucketName = Some objs"
    and "take page (map fst objs) \<noteq> []"
  shows "S3Store_clear store w =
     (Fatal ''Unexpected error deleting all objects: MalformedXML'',
      w\<lparr>calls := calls w @ [ListObjects bucketName,
                            DeleteObjects bucketName (deletionBatch (take page (map fst objs)))]\<rparr>)"
  using assms
  by (simp add: S3Store_clear_cases reference_ListObjects reference_DeleteObjects
      nil_in_deletionBatch issue_def)

text \<open>
  C7.  When the listing is empty, the batch \<^verbatim>\<open>clear\<close> builds is empty: the construction
  puts no nil entry in it.  The requests of \<^verbatim>\<open>clear\<close> are then one \<^verbatim>\<open>ListObjects\<close> and one
  \<^verbatim>\<open>DeleteObjects\<close> with that empty batch, so no request carries a nil entry, and \<^verbatim>\<open>clear\<close>
  returns exactly when the endpoint accepts the request.  On the reference endpoint with
  an empty bucket \<^verbatim>\<open>clear\<close> returns and leaves the endpoint as it was.
\<close>

theorem clear_on_empty_store:
  "(fst (client_ListObjects (client store) bucketName w) = Inr out \<and> Contents out = [] \<longrightarrow>
     deletionBatch (Contents out) = [] \<and>
     None \<notin> set (deletionBatch (Contents out)) \<and>
     calls (snd (S3Store_clear store w))
       = calls w @ [ListObjects bucketName, DeleteObjects bucketName []] \<and>
     (fst (S3Store_clear store w) = Return () \<longleftrightarrow>
        fst (client_DeleteObjects (client store) bucketName []
               (snd (client_ListObjects (client store) bucketName w))) = None)) \<and>
   (client s3 = reference_s3 page \<and> remote v bucketName = Some [] \<longrightarrow>
     S3Store_clear s3 v =
       (Return (),
        v\<lparr>calls := calls v @ [ListObjects bucketName, DeleteObjects bucketName []]\<rparr>))"
proof (intro conjI impI)
  assume a: "fst (client_ListObjects (client store) bucketName w) = Inr out \<and>
             Contents out = []"
  then show "deletionBatch (Contents out) = []"
    by (simp add: deletionBatch_empty)
  from a show "None \<notin> set (deletionBatch (Contents out))"
    by (simp add: deletionBatch_empty)
  from a show "calls (snd (S3Store_clear store w))
       = calls w @ [ListObjects bucketName, DeleteObjects bucketName []]"
    by (auto simp add: S3Store_clear_cases client_ListObjects_def issue_def deletionBatch_empty
        split: prod.splits sum.splits option.splits)
  from a show "fst (S3Store_clear store w) = Return () \<longleftrightarrow>
        fst (client_DeleteObjects (client store) bucketName []
               (snd (client_ListObjects (client store) bucketName w))) = None"
    by (auto simp add: S3Store_clear_cases client_ListObjects_def client_DeleteObjects_def
        issue_def deletionBatch_empty split: prod.splits sum.splits option.splits)
next
  assume "client s3 = reference_s3 page \<and> remote v bucketName = Some []"
  then show "S3Store_clear s3 v =
       (Return (),
        v\<lparr>calls := calls v @ [ListObjects bucketName, DeleteObjects bucketName []]\<rparr>)"
    by (simp add: reference_clear_empty)
qed

theorem clear_on_empty_store_witness:
  "fst (client_ListObjects (client (sampleStore 1000 ''http://localhost:9000'')) bucketName
          emptyBucketWorld) = Inr \<lparr>Contents = [], IsTruncated = False\<rparr> \<and>
   remote emptyBucketWorld bucketName = Some [] \<and>
   calls (snd (S3Store_clear (sampleStore 1000 ''http://localhost:9000'') emptyBucketWorld))
     = [ListObjects ''link-images'', DeleteObjects ''link-images'' []] \<and>
   fst (S3Store_clear (sampleStore 1000 ''http://localhost:9000'') emptyBucketWorld) = Return ()"
proof -
  have h: "fst (client_ListObjects (client (sampleStore 1000 ''http://localhost:9000''))
                  bucketName emptyBucketWorld) = Inr \<lparr>Contents = [], IsTruncated = False\<rparr>"
    by (simp add: client_ListObjects_def reference_ListObjects emptyBucketWorld_def
        newWorld_def sampleStore_def)
  have e: "remote emptyBucketWorld bucketName = Some []"
    by (simp add: emptyBucketWorld_def newWorld_def)
  have s: "client (sampleStore 1000 ''http://localhost:9000'') = reference_s3 1000"
    by (simp add: sampleStore_def)
  have c0: "calls emptyBucketWorld = []"
    by (simp add: emptyBucketWorld_def newWorld_def)
  note t = clear_on_empty_store
    [where store = "sampleStore 1000 ''http://localhost:9000''" and w = emptyBucketWorld
       and out = "\<lparr>Contents = [], IsTruncated = False\<rparr>"
       and ?s3.0 = "sampleStore 1000 ''http://localhost:9000''" and v = emptyBucketWorld
       and page = 1000]
  from t h c0 have a:
    "calls (snd (S3Store_clear (sampleStore 1000 ''http://localhost:9000'') emptyBucketWorld))
       = [ListObjects ''link-images'', DeleteObjects ''link-images'' []]"
    by (simp add: bucketName_def)
  from t s e have b:
    "fst (S3Store_clear (sampleStore 1000 ''http://localhost:9000'') emptyBucketWorld)
       = Return ()"
    by simp
  from h e a b show ?thesis by simp
qed

subsection \<open>What clear leaves behind\<close>

text \<open>
  \<^verbatim>\<open>InMemoryStore.clear\<close> leaves the store \<^verbatim>\<open>NewInMemoryStore\<close> returns, and \<^verbatim>\<open>Get\<close> returns
  the nil image for every key afterwards.
\<close>

lemma InMemoryStore_clear_fresh: "InMemoryStore_clear store = NewInMemoryStore"
  by (cases store) (simp add: InMemoryStore_clear_def NewInMemoryStore_def)

lemma InMemoryStore_clear_Get: "InMemoryStore_Get (InMemoryStore_clear store) k = nil_image"
  by (simp add: InMemoryStore_clear_def InMemoryStore_Get_def)

text \<open>
  \<^verbatim>\<open>S3Store.clear\<close> on the reference endpoint: the objects a \<^verbatim>\<open>Put\<close> stored, and what
  \<^verbatim>\<open>Get\<close> reads.
\<close>

lemma reference_Get:
  assumes "client store = reference_s3 page" and "remote w bucketName = Some objs"
  shows "fst (S3Store_Get c store k w) =
     (case map_of objs k of
        None \<Rightarrow> nil_image
      | Some body \<Rightarrow> (case dec c body of Inl err \<Rightarrow> nil_image | Inr img \<Rightarrow> img))"
  using assms
  by (simp add: S3Store_Get_cases reference_GetObject split: option.splits sum.splits)

lemma reference_PutObject:
  "doPutObject (reference_s3 page) b k body s =
     (case s b of
        None \<Rightarrow> (Some (Error ''NoSuchBucket''), s)
      | Some objs \<Rightarrow> (None, s(b \<mapsto> storeObject k body objs)))"
  by (simp add: reference_s3_def)

lemma reference_Put_remote:
  assumes "client store = reference_s3 page" and "remote w bucketName = Some objs"
    and "img \<noteq> nil_image" and "enc c img = Inr buf"
  shows "remote (snd (S3Store_Put c store k img w))
           = (remote w)(bucketName \<mapsto> storeObject k buf objs)"
  using assms
  by (simp add: S3Store_Put_cases reference_PutObject issue_def split: option.splits)

lemma reference_putAll:
  assumes "client store = reference_s3 page" and "img \<noteq> nil_image" and "enc c img = Inr buf"
  shows "remote w bucketName = Some objs \<Longrightarrow>
         remote (putAll c store ks img w) bucketName
           = Some (foldl (\<lambda>objs' k. storeObject k buf objs') objs ks)"
proof (induction ks arbitrary: w objs)
  case Nil
  then show ?case by (simp add: putAll_def)
next
  case (Cons k ks)
  have step: "remote (snd (S3Store_Put c store k img w)) bucketName
                = Some (storeObject k buf objs)"
    using reference_Put_remote [OF assms(1) Cons.prems assms(2) assms(3), of k] by simp
  have "putAll c store (k # ks) img w = putAll c store ks img (snd (S3Store_Put c store k img w))"
    by (simp add: putAll_def)
  with Cons.IH [OF step] show ?case by simp
qed

text \<open>
  One object is enough for \<^verbatim>\<open>clear\<close> to end the process on the reference endpoint: the
  batch then starts with a nil entry, the endpoint refuses it, and the object stays.
\<close>

lemma clear_one_object:
  assumes "client store = reference_s3 page" and "remote w bucketName = Some [(k, body)]"
    and "0 < page"
  shows "fst (S3Store_clear store w) = Fatal ''Unexpected error deleting all objects: MalformedXML''"
    and "remote (snd (S3Store_clear store w)) = remote w"
    and "calls (snd (S3Store_clear store w))
           = calls w @ [ListObjects bucketName, DeleteObjects bucketName [None, Some k]]"
proof -
  from assms(3) have t: "take page (map fst [(k, body)]) = [k]"
    by (cases page) simp_all
  then have ne: "take page (map fst [(k, body)]) \<noteq> []"
    by simp
  note cl = reference_clear_refused [OF assms(1) assms(2) ne, unfolded t]
  show "fst (S3Store_clear store w) = Fatal ''Unexpected error deleting all objects: MalformedXML''"
    by (simp add: cl)
  show "remote (snd (S3Store_clear store w)) = remote w"
    by (simp add: cl)
  show "calls (snd (S3Store_clear store w))
           = calls w @ [ListObjects bucketName, DeleteObjects bucketName [None, Some k]]"
    by (simp add: cl deletionBatch_eq)
qed

subsection \<open>A bucket larger than one listing\<close>

lemma keyLess_replicate: "keyLess (replicate m c) (replicate n c) \<longleftrightarrow> m < n"
proof (induction m arbitrary: n)
  case 0
  show ?case by (cases n) simp_all
next
  case (Suc m)
  show ?case
  proof (cases n)
    case 0
    then show ?thesis by simp
  next
    case (Suc n')
    with Suc.IH [of n'] show ?thesis by simp
  qed
qed

lemma storeObject_last:
  "\<forall>k' \<in> fst ` set objs. k' \<noteq> k \<and> \<not> keyLess k k' \<Longrightarrow>
   storeObject k v objs = objs @ [(k, v)]"
  by (induction objs) auto

lemma keysUpTo_Suc: "keysUpTo (Suc n) = keysUpTo n @ [replicate (Suc n) CHR ''k'']"
  by (simp add: keysUpTo_def)

lemma length_keysUpTo: "length (keysUpTo n) = n"
  by (simp add: keysUpTo_def)

lemma storeAll_keysUpTo:
  "foldl (\<lambda>objs' k. storeObject k v objs') [] (keysUpTo n) = map (\<lambda>k. (k, v)) (keysUpTo n)"
proof (induction n)
  case 0
  show ?case by (simp add: keysUpTo_def)
next
  case (Suc n)
  define lk where "lk = replicate (Suc n) CHR ''k''"
  have later: "\<forall>k' \<in> fst ` set (map (\<lambda>k. (k, v)) (keysUpTo n)). k' \<noteq> lk \<and> \<not> keyLess lk k'"
  proof
    fix k'
    assume "k' \<in> fst ` set (map (\<lambda>k. (k, v)) (keysUpTo n))"
    then obtain i where i: "i < n" and k': "k' = replicate (Suc i) CHR ''k''"
      by (auto simp add: keysUpTo_def)
    have "length k' \<noteq> length lk"
      using i by (simp add: k' lk_def)
    then have ne: "k' \<noteq> lk" by auto
    have "\<not> keyLess lk k'"
      unfolding lk_def k' keyLess_replicate using i by simp
    with ne show "k' \<noteq> lk \<and> \<not> keyLess lk k'" by simp
  qed
  have "foldl (\<lambda>objs' k. storeObject k v objs') [] (keysUpTo (Suc n))
          = storeObject lk v (map (\<lambda>k. (k, v)) (keysUpTo n))"
    by (simp only: keysUpTo_Suc foldl_append foldl.simps Suc.IH lk_def)
  also have "\<dots> = map (\<lambda>k. (k, v)) (keysUpTo n) @ [(lk, v)]"
    by (rule storeObject_last [OF later])
  also have "\<dots> = map (\<lambda>k. (k, v)) (keysUpTo (Suc n))"
    by (simp only: keysUpTo_Suc map_append list.map lk_def)
  finally show ?case .
qed

lemma take_keysUpTo: "take n (keysUpTo (Suc n)) = keysUpTo n"
  by (simp add: keysUpTo_def take_map)

lemma last_keysUpTo: "last (keysUpTo (Suc n)) = replicate (Suc n) CHR ''k''"
  by (simp add: keysUpTo_def)

lemma last_in_keysUpTo: "replicate (Suc n) CHR ''k'' \<in> set (keysUpTo (Suc n))"
  by (simp add: keysUpTo_def image_iff)

lemma last_not_in_page: "replicate (Suc n) CHR ''k'' \<notin> set (keysUpTo n)"
proof
  assume "replicate (Suc n) CHR ''k'' \<in> set (keysUpTo n)"
  then obtain i where i: "i < n" and "replicate (Suc n) CHR ''k'' = replicate (Suc i) CHR ''k''"
    by (auto simp add: keysUpTo_def)
  then have "length (replicate (Suc n) CHR ''k'') = length (replicate (Suc i) CHR ''k'')"
    by simp
  with i show False by simp
qed

lemma map_of_same_body:
  "map_of (map (\<lambda>k. (k, v)) ks) k = (if k \<in> set ks then Some v else None)"
  by (induction ks) auto

lemma crowded_bucket:
  assumes "client store = reference_s3 page" and "img \<noteq> nil_image" and "enc c img = Inr buf"
    and "remote w bucketName = Some []"
  shows "remote (putAll c store (keysUpTo n) img w) bucketName
           = Some (map (\<lambda>k. (k, buf)) (keysUpTo n))"
  using reference_putAll [OF assms(1) assms(2) assms(3) assms(4), of "keysUpTo n"]
  by (simp only: storeAll_keysUpTo)

lemma clear_crowded_bucket:
  assumes store: "client store = reference_s3 page"
    and img: "img \<noteq> nil_image" "enc c img = Inr buf" "dec c buf = Inr img'"
    and w: "remote w bucketName = Some []"
    and n: "n = Suc page" and page: "0 < page"
  shows "fst (S3Store_Get c store (last (keysUpTo n)) (putAll c store (keysUpTo n) img w))
           = img'"
    and "fst (S3Store_clear store (putAll c store (keysUpTo n) img w))
           = Fatal ''Unexpected error deleting all objects: MalformedXML''"
    and "calls (snd (S3Store_clear store (putAll c store (keysUpTo n) img w)))
           = calls (putAll c store (keysUpTo n) img w) @
               [ListObjects bucketName, DeleteObjects bucketName (deletionBatch (keysUpTo page))]"
    and "Some (last (keysUpTo n)) \<notin> set (deletionBatch (keysUpTo page))"
    and "None \<in> set (deletionBatch (keysUpTo page))"
    and "length (deletionBatch (keysUpTo page)) = 2 * page"
    and "fst (S3Store_Get c store (last (keysUpTo n))
                (snd (S3Store_clear store (putAll c store (keysUpTo n) img w)))) = img'"
proof -
  let ?w = "putAll c store (keysUpTo n) img w"
  let ?objs = "map (\<lambda>k. (k, buf)) (keysUpTo n)"
  define lk where "lk = replicate (Suc page) CHR ''k''"
  have b: "remote ?w bucketName = Some ?objs"
    by (rule crowded_bucket [OF store img(1) img(2) w])
  have l: "last (keysUpTo n) = lk"
    unfolding lk_def n by (rule last_keysUpTo)
  have inn: "lk \<in> set (keysUpTo n)"
    unfolding lk_def n by (rule last_in_keysUpTo)
  have out: "lk \<notin> set (keysUpTo page)"
    unfolding lk_def by (rule last_not_in_page)
  have got: "fst (S3Store_Get c store lk ?w) = img'"
    by (simp add: reference_Get [OF store b] map_of_same_body inn img(3))
  then show "fst (S3Store_Get c store (last (keysUpTo n)) ?w) = img'"
    by (simp only: l)
  have fsts: "map fst (map (\<lambda>k. (k, buf)) ks) = ks" for ks :: "key list"
    by (simp add: comp_def)
  have listed: "take page (map fst ?objs) = keysUpTo page"
    by (simp only: fsts n take_keysUpTo)
  have ne: "keysUpTo page \<noteq> []"
    using page length_keysUpTo [of page] by auto
  have ne': "take page (map fst ?objs) \<noteq> []"
    unfolding listed by (rule ne)
  note cl = reference_clear_refused [OF store b ne', unfolded listed]
  show "fst (S3Store_clear store ?w)
          = Fatal ''Unexpected error deleting all objects: MalformedXML''"
    by (simp add: cl)
  show "calls (snd (S3Store_clear store ?w))
          = calls ?w @
              [ListObjects bucketName, DeleteObjects bucketName (deletionBatch (keysUpTo page))]"
    by (simp add: cl)
  show "Some (last (keysUpTo n)) \<notin> set (deletionBatch (keysUpTo page))"
    by (simp only: l key_in_deletionBatch out not_False_eq_True)
  show "None \<in> set (deletionBatch (keysUpTo page))"
    by (simp only: nil_in_deletionBatch ne not_False_eq_True)
  show "length (deletionBatch (keysUpTo page)) = 2 * page"
    by (simp only: length_deletionBatch length_keysUpTo)
  have after: "remote (snd (S3Store_clear store ?w)) bucketName = Some ?objs"
    by (simp add: cl b)
  have "fst (S3Store_Get c store lk (snd (S3Store_clear store ?w))) = img'"
    by (simp add: reference_Get [OF store after] map_of_same_body inn img(3))
  then show "fst (S3Store_Get c store (last (keysUpTo n)) (snd (S3Store_clear store ?w))) = img'"
    by (simp only: l)
qed

text \<open>
  C6, the failing input.  On the reference endpoint with the limits of S3, 1001 images are
  put under 1001 keys; \<^verbatim>\<open>Get\<close> returns an image for the last key.  \<^verbatim>\<open>clear\<close> lists once
  and gets the first 1000 keys; its batch of 2000 entries starts with 1000 nil entries and
  never names the last key; the endpoint refuses the batch and \<^verbatim>\<open>clear\<close> ends the process.
  \<^verbatim>\<open>Get\<close> still returns an image for the last key.
\<close>

theorem clear_leaves_objects_behind:
  "fst (S3Store_Get sampleCodec (sampleStore 1000 ''http://localhost:9000'')
          (last (keysUpTo 1001)) crowdedWorld) \<noteq> nil_image \<and>
   fst (S3Store_clear (sampleStore 1000 ''http://localhost:9000'') crowdedWorld)
     = Fatal ''Unexpected error deleting all objects: MalformedXML'' \<and>
   calls (snd (S3Store_clear (sampleStore 1000 ''http://localhost:9000'') crowdedWorld))
     = calls crowdedWorld @
         [ListObjects bucketName, DeleteObjects bucketName (deletionBatch (keysUpTo 1000))] \<and>
   Some (last (keysUpTo 1001)) \<notin> set (deletionBatch (keysUpTo 1000)) \<and>
   None \<in> set (deletionBatch (keysUpTo 1000)) \<and>
   length (deletionBatch (keysUpTo 1000)) = 2000 \<and>
   fst (S3Store_Get sampleCodec (sampleStore 1000 ''http://localhost:9000'')
          (last (keysUpTo 1001))
          (snd (S3Store_clear (sampleStore 1000 ''http://localhost:9000'') crowdedWorld)))
     \<noteq> nil_image"
proof -
  have store: "client (sampleStore 1000 ''http://localhost:9000'') = reference_s3 1000"
    by (simp add: sampleStore_def)
  have w: "remote emptyBucketWorld bucketName = Some []"
    by (simp add: emptyBucketWorld_def newWorld_def)
  have n: "(1001 :: nat) = Suc 1000"
    by simp
  have page: "(0 :: nat) < 1000"
    by simp
  note t = clear_crowded_bucket
    [OF store redSquare_not_nil enc_redSquare dec_redSquare w n page, folded crowdedWorld_def]
  from t redSquareDecoded_not_nil show ?thesis by simp
qed

section \<open>S3Store.Put: the URL\<close>

text \<open>
  When the public URL base holds no \<^verbatim>\<open>%\<close>, the format is the base, the bucket name and
  one \<^verbatim>\<open>%s\<close>, and a successful \<^verbatim>\<open>Put\<close> returns \<^verbatim>\<open><publicURL>/link-images/<key>\<close>.
\<close>

lemma bucketName_plain: "CHR ''%'' \<notin> set (''/'' @ bucketName @ ''/'')"
  by (simp add: bucketName_def)

lemma Sprintf_urlPattern:
  assumes "CHR ''%'' \<notin> set publicURL"
  shows "fmt_Sprintf (publicURL @ ''/'' @ bucketName @ ''/%s'') [k]
           = Some (publicURL @ ''/link-images/'' @ k)"
proof -
  have "CHR ''%'' \<notin> set (publicURL @ ''/'' @ bucketName @ ''/'')"
    using assms by (simp add: bucketName_def)
  from Sprintf_plain [OF this, of k] show ?thesis
    by (simp add: bucketName_def)
qed

lemma S3Store_Put_url_plain:
  assumes "CHR ''%'' \<notin> set publicURL"
    and "urlPattern store = publicURL @ ''/'' @ bucketName @ ''/%s''"
    and "fst (S3Store_Put c store k img w) = Return (url, None)"
  shows "url = publicURL @ ''/link-images/'' @ k"
proof -
  have p: "fmt_Sprintf (urlPattern store) [k] = Some (publicURL @ ''/link-images/'' @ k)"
    unfolding assms(2) by (rule Sprintf_urlPattern [OF assms(1)])
  from assms(3) show ?thesis
    by (auto simp add: S3Store_Put_cases p
        split: if_splits sum.splits prod.splits option.splits)
qed

lemma S3Store_Put_url_scenario:
  "fst (S3Store_Put sampleCodec (sampleStore 1000 ''http://localhost:9000'') ''xyz'' redSquare
          emptyBucketWorld)
     = Return (''http://localhost:9000/link-images/xyz'', None)"
proof -
  have "CHR ''%'' \<notin> set ''http://localhost:9000''" by simp
  from Sprintf_urlPattern [OF this, of "''xyz''"] show ?thesis
    by (simp add: S3Store_Put_cases redSquare_not_nil enc_redSquare sampleStore_def
        reference_PutObject emptyBucketWorld_def newWorld_def)
qed

lemma Sprintf_percent_base:
  "fmt_Sprintf ''http://localhost:9000/caf%C3%A9/link-images/%s'' [''xyz'']
     = Some ''http://localhost:9000/caf%!C(string=xyz)3%!A(MISSING)9/link-images/%!s(MISSING)''"
  by (simp add: fmt_Sprintf_def extraString_def badVerbForString_def)

text \<open>
  C4, the failing input.  The public URL base is spliced into the format that
  \<^verbatim>\<open>fmt.Sprintf\<close> reads, so a \<^verbatim>\<open>%\<close> in it is taken as a directive.  With the base
  \<^verbatim>\<open>http://localhost:9000/caf%C3%A9\<close> (a percent-encoded path) and the key \<^verbatim>\<open>xyz\<close>, a
  successful \<^verbatim>\<open>Put\<close> does not return \<^verbatim>\<open>http://localhost:9000/caf%C3%A9/link-images/xyz\<close>:
  the key lands at the first directive and the final \<^verbatim>\<open>%s\<close> finds no operand.
\<close>

theorem S3Store_Put_url_percent_base:
  "fst (S3Store_Put sampleCodec (sampleStore 1000 ''http://localhost:9000/caf%C3%A9'') ''xyz''
          redSquare emptyBucketWorld)
     = Return (''http://localhost:9000/caf%!C(string=xyz)3%!A(MISSING)9/link-images/%!s(MISSING)'',
               None)"
  using Sprintf_percent_base
  by (simp add: S3Store_Put_cases redSquare_not_nil enc_redSquare sampleStore_def
      reference_PutObject emptyBucketWorld_def newWorld_def bucketName_def)

end
